theory Spec2Isabelle
  imports Main "HOL-Library.Multiset"
begin

section \<open>JavaScript values of a request\<close>

text \<open>
  A request body is a parsed JSON object; a field that is absent reads as
  \<open>undefined\<close>. A number \<open>JNum n\<close> is the JavaScript number of the integer value
  \<open>n\<close>: numbers with a fraction cannot be written, and \<open>n\<close> is not rounded to a
  double. Characters are the 8-bit characters of HOL.
\<close>

datatype jsval =
    JUndefined
  | JNull
  | JBool bool
  | JNum int
  | JStr string
  | JArr "jsval list"
  | JObj "(string \<times> jsval) list"

definition digit_char :: "int \<Rightarrow> char" where
  "digit_char n = ''0123456789'' ! nat (n mod 10)"

function show_digits :: "int \<Rightarrow> string" where
  "show_digits n =
     (if n < 10 then [digit_char n] else show_digits (n div 10) @ [digit_char n])"
  by pat_completeness auto
termination
  by (relation "measure nat") auto

declare show_digits.simps [simp del]

text \<open>The string of a number that is not negative: plain digits below \<open>10 ^ 21\<close>, from
  there on the exponent form \<open>d.ddde+k\<close>. The digits of the exponent form are those of
  the integer, without its trailing zeros, not the shortest digits of a double.\<close>

definition show_number :: "int \<Rightarrow> string" where
  "show_number n =
     (let ds = show_digits n in
      if n < 10 ^ 21 then ds
      else (case rev (dropWhile (\<lambda>d. d = CHR ''0'') (rev ds)) of
              [] \<Rightarrow> ds
            | d # r \<Rightarrow>
                d # (if r = [] then [] else CHR ''.'' # r) @ ''e+''
                  @ show_digits (int (length ds) - 1)))"

definition show_int :: "int \<Rightarrow> string" where
  "show_int i = (if i < 0 then CHR ''-'' # show_number (- i) else show_number i)"

text \<open>\<open>String(v)\<close>; \<open>Array.prototype.join\<close> renders \<open>null\<close> and \<open>undefined\<close> elements as
  the empty string. Objects are plain JSON objects, which render as \<open>[object Object]\<close>.\<close>

fun js_String :: "jsval \<Rightarrow> string"
  and js_join :: "jsval list \<Rightarrow> string" where
  "js_String JUndefined = ''undefined''"
| "js_String JNull = ''null''"
| "js_String (JBool b) = (if b then ''true'' else ''false'')"
| "js_String (JNum n) = show_int n"
| "js_String (JStr s) = s"
| "js_String (JArr xs) = js_join xs"
| "js_String (JObj kvs) = ''[object Object]''"
| "js_join [] = []"
| "js_join (x # xs) =
     (if x = JUndefined \<or> x = JNull then [] else js_String x)
     @ (if xs = [] then [] else CHR '','' # js_join xs)"

text \<open>Truthiness, as \<open>!v\<close> and \<open>if (!v)\<close> read it.\<close>

fun js_truthy :: "jsval \<Rightarrow> bool" where
  "js_truthy JUndefined = False"
| "js_truthy JNull = False"
| "js_truthy (JBool b) = b"
| "js_truthy (JNum n) = (n \<noteq> 0)"
| "js_truthy (JStr s) = (s \<noteq> [])"
| "js_truthy (JArr xs) = True"
| "js_truthy (JObj kvs) = True"

subsection \<open>Numeric strings\<close>

definition is_digit :: "char \<Rightarrow> bool" where
  "is_digit c = (c \<in> set ''0123456789'')"

definition is_sign :: "char \<Rightarrow> bool" where
  "is_sign c = (c = CHR ''+'' \<or> c = CHR ''-'')"

definition strip_sign :: "string \<Rightarrow> string" where
  "strip_sign s = (case s of [] \<Rightarrow> [] | c # cs \<Rightarrow> if is_sign c then cs else s)"

definition all_digits :: "string \<Rightarrow> bool" where
  "all_digits s = (s \<noteq> [] \<and> list_all is_digit s)"

definition is_ws :: "char \<Rightarrow> bool" where
  "is_ws c = (c \<in> set [CHR '' '', CHR 0x09, CHR 0x0A, CHR 0x0B, CHR 0x0C, CHR 0x0D, CHR 0xA0])"

definition trim :: "string \<Rightarrow> string" where
  "trim s = rev (dropWhile is_ws (rev (dropWhile is_ws s)))"

definition digit_val :: "char \<Rightarrow> nat" where
  "digit_val c = length (takeWhile (\<lambda>d. d \<noteq> c) ''0123456789'')"

definition digits_val :: "string \<Rightarrow> int" where
  "digits_val s = foldl (\<lambda>n c. 10 * n + int (digit_val c)) 0 s"

text \<open>The exponent part of a decimal literal (\<open>e5\<close>, \<open>E+5\<close>, \<open>e-5\<close>, or nothing), if
  the string is one.\<close>

definition exponent_part :: "string \<Rightarrow> int option" where
  "exponent_part e =
     (if e = [] then Some 0
      else if (hd e = CHR ''e'' \<or> hd e = CHR ''E'') \<and> all_digits (strip_sign (tl e))
           then Some ((if hd (tl e) = CHR ''-'' then - 1 else 1)
                      * digits_val (strip_sign (tl e)))
      else None)"

text \<open>A decimal literal (\<open>12\<close>, \<open>12.\<close>, \<open>12.5\<close>, \<open>.5\<close>, each with an optional
  exponent part) as a pair \<open>(ds, x)\<close> of the digits of its mantissa and the power of ten
  they are to be scaled by, if the string is one.\<close>

definition decimal_literal :: "string \<Rightarrow> (string \<times> int) option" where
  "decimal_literal s =
     (let a = takeWhile is_digit s;
          r = dropWhile is_digit s;
          dot = (r \<noteq> [] \<and> hd r = CHR ''.'');
          b = (if dot then takeWhile is_digit (tl r) else []);
          e = (if dot then dropWhile is_digit (tl r) else r)
      in if a @ b = [] then None
         else (case exponent_part e of
                 None \<Rightarrow> None
               | Some x \<Rightarrow> Some (a @ b, x - int (length b))))"

text \<open>Whether the value \<open>m * 10 ^ x\<close> of a literal with the digits \<open>ds\<close> of \<open>m\<close>
  converts to a number above zero. Conversion rounds to the nearest double, so a value of
  at most \<open>2 ^ - 1075\<close>, half the least positive double, becomes zero. With \<open>m\<close> below
  \<open>10 ^ length ds\<close> and \<open>2 ^ 1075\<close> below \<open>10 ^ 324\<close>, the first comparison only spares
  the second a power that cannot be exceeded.\<close>

definition rounds_above_zero :: "string \<times> int \<Rightarrow> bool" where
  "rounds_above_zero dx =
     (case dx of (ds, x) \<Rightarrow>
        digits_val ds \<noteq> 0 \<and>
        (0 \<le> x \<or>
         (- x < int (length ds) + 324 \<and> 10 ^ nat (- x) < digits_val ds * 2 ^ 1075)))"

text \<open>The digits of a \<open>0x\<close>, \<open>0o\<close> or \<open>0b\<close> literal, if the string is one.\<close>

definition radix_digits :: "string \<Rightarrow> string option" where
  "radix_digits s =
     (case s of
        z # x # ds \<Rightarrow>
          (let allowed =
                 (if x = CHR ''x'' \<or> x = CHR ''X'' then ''0123456789abcdefABCDEF''
                  else if x = CHR ''o'' \<or> x = CHR ''O'' then ''01234567''
                  else if x = CHR ''b'' \<or> x = CHR ''B'' then ''01''
                  else [])
           in if z = CHR ''0'' \<and> ds \<noteq> [] \<and> list_all (\<lambda>d. d \<in> set allowed) ds
              then Some ds else None)
      | _ \<Rightarrow> None)"

definition some_nonzero :: "string \<Rightarrow> bool" where
  "some_nonzero ds = list_ex (\<lambda>d. d \<noteq> CHR ''0'') ds"

text \<open>Whether the number a string converts to is greater than zero; a string that is
  no numeric literal converts to \<open>NaN\<close>, which is not.\<close>

definition str_gt_zero :: "string \<Rightarrow> bool" where
  "str_gt_zero s =
     (let t = trim s in
      case t of
        [] \<Rightarrow> False
      | c # cs \<Rightarrow>
          if c = CHR ''-'' then False
          else let u = (if c = CHR ''+'' then cs else t) in
            if u = ''Infinity'' then True
            else (case decimal_literal u of
                    Some dx \<Rightarrow> rounds_above_zero dx
                  | None \<Rightarrow>
                      (case radix_digits t of
                         Some ds \<Rightarrow> some_nonzero ds
                       | None \<Rightarrow> False)))"

text \<open>The comparison \<open>value > 0\<close>.\<close>

fun js_gt_zero :: "jsval \<Rightarrow> bool" where
  "js_gt_zero JUndefined = False"
| "js_gt_zero JNull = False"
| "js_gt_zero (JBool b) = b"
| "js_gt_zero (JNum n) = (n > 0)"
| "js_gt_zero (JStr s) = str_gt_zero s"
| "js_gt_zero (JArr xs) = str_gt_zero (js_join xs)"
| "js_gt_zero (JObj kvs) = False"

section \<open>The validators of the routes\<close>

text \<open>
  The string validators of the validation library that the routes name (\<open>isInt\<close>,
  \<open>isNumeric\<close>, \<open>isEmpty\<close>, \<open>isBoolean\<close>), with their default options:
  \<open>isInt\<close> accepts an optional sign and decimal digits, \<open>isNumeric\<close> also a
  fraction, \<open>isBoolean\<close> the four strings \<open>true\<close>, \<open>false\<close>, \<open>1\<close>, \<open>0\<close>.
\<close>

definition isInt :: "string \<Rightarrow> bool" where
  "isInt s = all_digits (strip_sign s)"

definition isNumeric :: "string \<Rightarrow> bool" where
  "isNumeric s =
     (let r = strip_sign s;
          a = takeWhile is_digit r;
          b = dropWhile is_digit r
      in if b = [] then a \<noteq> []
         else hd b = CHR ''.'' \<and> all_digits (tl b))"

definition isEmpty :: "string \<Rightarrow> bool" where
  "isEmpty s = (length s = 0)"

definition isBoolean :: "string \<Rightarrow> bool" where
  "isBoolean s = (s \<in> set [''true'', ''false'', ''1'', ''0''])"

text \<open>The string a validator sees for a value: of a non-empty array its first element,
  of \<open>null\<close> and \<open>undefined\<close> the empty string.\<close>

fun toString_flat :: "jsval \<Rightarrow> string" where
  "toString_flat JUndefined = []"
| "toString_flat JNull = []"
| "toString_flat v = js_String v"

fun toString :: "jsval \<Rightarrow> string" where
  "toString (JArr (x # xs)) = toString_flat x"
| "toString v = toString_flat v"

datatype location = Params | Body

record verror =
  msg :: string
  path :: string
  location :: location
  "value" :: jsval

datatype validator =
    IsInt
  | IsNumeric
  | NotEmpty
  | IsBoolean
  | Custom "jsval \<Rightarrow> bool"

fun standard :: "validator \<Rightarrow> string \<Rightarrow> bool" where
  "standard IsInt s = isInt s"
| "standard IsNumeric s = isNumeric s"
| "standard NotEmpty s = (\<not> isEmpty s)"
| "standard IsBoolean s = isBoolean s"
| "standard (Custom f) s = True"

text \<open>One validator of a chain on the value of its field. A standard validator checks
  each element of an array value by itself; a custom one gets the value as it is.\<close>

fun run_validator :: "location \<Rightarrow> string \<Rightarrow> jsval \<Rightarrow> validator \<times> string \<Rightarrow> verror list" where
  "run_validator loc field v (Custom f, m) =
     (if f v then [] else [\<lparr>msg = m, path = field, location = loc, value = v\<rparr>])"
| "run_validator loc field v (std, m) =
     map (\<lambda>x. \<lparr>msg = m, path = field, location = loc, value = x\<rparr>)
       (filter (\<lambda>x. \<not> standard std (toString x)) (case v of JArr xs \<Rightarrow> xs | _ \<Rightarrow> [v]))"

record request =
  params :: "(string \<times> string) list"
  body :: "(string \<times> jsval) list"

definition select_field :: "request \<Rightarrow> location \<Rightarrow> string \<Rightarrow> jsval" where
  "select_field req loc field =
     (case loc of
        Params \<Rightarrow> (case map_of (params req) field of None \<Rightarrow> JUndefined | Some s \<Rightarrow> JStr s)
      | Body \<Rightarrow> (case map_of (body req) field of None \<Rightarrow> JUndefined | Some v \<Rightarrow> v))"

type_synonym chain = "location \<times> string \<times> (validator \<times> string) list"

text \<open>A chain runs all its validators, in order, on the same value; each failure adds
  an entry.\<close>

definition run_chain :: "request \<Rightarrow> chain \<Rightarrow> verror list" where
  "run_chain req ch =
     (case ch of (loc, field, vs) \<Rightarrow>
        concat (map (run_validator loc field (select_field req loc field)) vs))"

definition validationResult :: "chain list \<Rightarrow> request \<Rightarrow> verror list" where
  "validationResult chs req = concat (map (run_chain req) chs)"

subsection \<open>The chains of \<open>router.ts\<close>\<close>

definition param_id :: chain where
  "param_id = (Params, ''id'', [(IsInt, ''ID no valido'')])"

definition body_name :: chain where
  "body_name = (Body, ''name'', [(NotEmpty, ''El nombre del producto no puede ir vacio'')])"

definition body_price :: chain where
  "body_price =
     (Body, ''price'',
      [(IsNumeric, ''Valor no v'' @ [CHR 0xE1] @ ''lido''),
       (NotEmpty, ''El nombre del producto no puede ir vacio''),
       (Custom js_gt_zero, ''Precio no valido'')])"

definition body_availability :: chain where
  "body_availability = (Body, ''availability'', [(IsBoolean, ''El campo no puede ir vacio'')])"

section \<open>The product table\<close>

text \<open>
  Modelled from the spec: the model class \<open>models/Product.model\<close> is not among the
  sources. A product has a unique integer \<open>id\<close>, assigned by the store on creation
  when unspecified, a \<open>name\<close>, a \<open>price\<close> and an \<open>availability\<close> that defaults to
  \<open>true\<close> when unspecified; it has no other attribute. The store keeps the values of
  \<open>name\<close>, \<open>price\<close> and \<open>availability\<close> as the JavaScript values it is given: what
  a database engine makes of a value that is not of the attribute's type is not
  modelled. Keys are unbounded integers.
\<close>

record product =
  product_id :: int
  name :: jsval
  price :: jsval
  availability :: jsval

text \<open>The calls made to the table, in order, beside its rows and its id sequence.\<close>

datatype db_call =
    FindAll
  | FindByPk string
  | Create "(string \<times> jsval) list"
  | Update int "(string \<times> jsval) list"
  | Save int
  | Destroy int

record store =
  rows :: "product list"
  next_id :: int
  calls :: "db_call list"

datatype error = StorageError

text \<open>The integer a key string denotes to the store.\<close>

definition to_int :: "string \<Rightarrow> int option" where
  "to_int s =
     (if isInt s
      then Some ((if hd s = CHR ''-'' then - 1 else 1) * digits_val (strip_sign s))
      else None)"

definition find_row :: "int \<Rightarrow> product list \<Rightarrow> product option" where
  "find_row k rs = find (\<lambda>r. product_id r = k) rs"

definition write_row :: "product \<Rightarrow> product list \<Rightarrow> product list" where
  "write_row p rs = map (\<lambda>r. if product_id r = product_id p then p else r) rs"

text \<open>\<open>Product.findAll({ order: [["id", "DESC"]] })\<close>\<close>

definition Product_findAll :: "store \<Rightarrow> product list \<times> store" where
  "Product_findAll st =
     (rev (sort_key product_id (rows st)), st\<lparr>calls := calls st @ [FindAll]\<rparr>)"

text \<open>\<open>Product.findByPk(id)\<close>: no query for a missing key; a key that is no integer
  makes the query fail.\<close>

definition Product_findByPk :: "string option \<Rightarrow> store \<Rightarrow> error + (product option \<times> store)" where
  "Product_findByPk pk st =
     (case pk of
        None \<Rightarrow> Inr (None, st)
      | Some s \<Rightarrow>
          (case to_int s of
             None \<Rightarrow> Inl StorageError
           | Some k \<Rightarrow> Inr (find_row k (rows st), st\<lparr>calls := calls st @ [FindByPk s]\<rparr>)))"

definition attribute :: "(string \<times> jsval) list \<Rightarrow> string \<Rightarrow> jsval \<Rightarrow> jsval" where
  "attribute b k dflt = (case map_of b k of None \<Rightarrow> dflt | Some v \<Rightarrow> v)"

text \<open>The key a create is given: none when \<open>values\<close> has no \<open>id\<close> or a \<open>null\<close>
  one, so that the store assigns the next of its sequence; the integer of a number or
  of an integer string; a value that is no integer makes the query fail.\<close>

definition supplied_id :: "(string \<times> jsval) list \<Rightarrow> error + int option" where
  "supplied_id b =
     (case map_of b ''id'' of
        None \<Rightarrow> Inr None
      | Some JNull \<Rightarrow> Inr None
      | Some (JNum m) \<Rightarrow> Inr (Some m)
      | Some (JStr s) \<Rightarrow> (case to_int s of None \<Rightarrow> Inl StorageError | Some m \<Rightarrow> Inr (Some m))
      | Some _ \<Rightarrow> Inl StorageError)"

text \<open>Modelled from the spec: \<open>Product.create(values)\<close> takes the attributes of the
  product from \<open>values\<close>, assigns the id and applies the default availability when
  \<open>values\<close> has none, and leaves a \<open>name\<close> or \<open>price\<close> that \<open>values\<close> lacks \<open>null\<close>;
  what else \<open>values\<close> holds is not stored. The id is unique: the query fails when a
  row has it already. A supplied id leaves the sequence where it is.\<close>

definition Product_create :: "(string \<times> jsval) list \<Rightarrow> store \<Rightarrow> error + (product \<times> store)" where
  "Product_create b st =
     (case supplied_id b of
        Inl e \<Rightarrow> Inl e
      | Inr given \<Rightarrow>
          (let k = (case given of None \<Rightarrow> next_id st | Some m \<Rightarrow> m);
               p = \<lparr>product_id = k,
                    name = attribute b ''name'' JNull,
                    price = attribute b ''price'' JNull,
                    availability = attribute b ''availability'' (JBool True)\<rparr>
           in if find_row k (rows st) \<noteq> None then Inl StorageError
              else Inr (p, st\<lparr>rows := rows st @ [p],
                              next_id := (case given of None \<Rightarrow> next_id st + 1
                                          | Some m \<Rightarrow> next_id st),
                              calls := calls st @ [Create b]\<rparr>)))"

text \<open>\<open>product.update(values)\<close>: the attributes named in \<open>values\<close> are replaced, the
  primary key is kept.\<close>

definition product_update :: "product \<Rightarrow> (string \<times> jsval) list \<Rightarrow> store \<Rightarrow> product \<times> store" where
  "product_update p b st =
     (let p' = p\<lparr>name := attribute b ''name'' (name p),
                 price := attribute b ''price'' (price p),
                 availability := attribute b ''availability'' (availability p)\<rparr>
      in (p', st\<lparr>rows := write_row p' (rows st),
                 calls := calls st @ [Update (product_id p) b]\<rparr>))"

text \<open>\<open>product.save()\<close>\<close>

definition product_save :: "product \<Rightarrow> store \<Rightarrow> store" where
  "product_save p st =
     st\<lparr>rows := write_row p (rows st), calls := calls st @ [Save (product_id p)]\<rparr>"

text \<open>\<open>product.destroy()\<close>\<close>

definition product_destroy :: "product \<Rightarrow> store \<Rightarrow> store" where
  "product_destroy p st =
     st\<lparr>rows := filter (\<lambda>r. product_id r \<noteq> product_id p) (rows st),
        calls := calls st @ [Destroy (product_id p)]\<rparr>"

section \<open>The handlers\<close>

datatype json =
    Data_list "product list"
  | Data_product product
  | Data_text string
  | Error_text string
  | Errors "verror list"

record response =
  status :: nat
  json :: json

type_synonym handler = "request \<Rightarrow> store \<Rightarrow> error + (response \<times> store)"

definition getProducts :: handler where
  "getProducts req st =
     (case Product_findAll st of
        (products, st1) \<Rightarrow> Inr (\<lparr>status = 200, json = Data_list products\<rparr>, st1))"

definition getProductById :: handler where
  "getProductById req st =
     (case Product_findByPk (map_of (params req) ''id'') st of
        Inl e \<Rightarrow> Inl e
      | Inr (None, st1) \<Rightarrow>
          Inr (\<lparr>status = 404, json = Error_text ''Producto no encontrado''\<rparr>, st1)
      | Inr (Some product, st1) \<Rightarrow>
          Inr (\<lparr>status = 200, json = Data_product product\<rparr>, st1))"

definition createProduct :: handler where
  "createProduct req st =
     (case Product_create (body req) st of
        Inl e \<Rightarrow> Inl e
      | Inr (product, st1) \<Rightarrow> Inr (\<lparr>status = 201, json = Data_product product\<rparr>, st1))"

definition updateProduct :: handler where
  "updateProduct req st =
     (case Product_findByPk (map_of (params req) ''id'') st of
        Inl e \<Rightarrow> Inl e
      | Inr (None, st1) \<Rightarrow>
          Inr (\<lparr>status = 404, json = Error_text ''Producto no encontrado''\<rparr>, st1)
      | Inr (Some product, st1) \<Rightarrow>
          (case product_update product (body req) st1 of
             (product1, st2) \<Rightarrow>
               Inr (\<lparr>status = 200, json = Data_product product1\<rparr>,
                    product_save product1 st2)))"

definition updateAvailability :: handler where
  "updateAvailability req st =
     (case Product_findByPk (map_of (params req) ''id'') st of
        Inl e \<Rightarrow> Inl e
      | Inr (None, st1) \<Rightarrow>
          Inr (\<lparr>status = 404, json = Error_text ''Producto no encontrado''\<rparr>, st1)
      | Inr (Some product, st1) \<Rightarrow>
          (let product1 = product\<lparr>availability := JBool (\<not> js_truthy (availability product))\<rparr>
           in Inr (\<lparr>status = 200, json = Data_product product1\<rparr>,
                   product_save product1 st1)))"

definition deleteProduct :: handler where
  "deleteProduct req st =
     (case Product_findByPk (map_of (params req) ''id'') st of
        Inl e \<Rightarrow> Inl e
      | Inr (None, st1) \<Rightarrow>
          Inr (\<lparr>status = 404, json = Error_text ''Producto no encontrado''\<rparr>, st1)
      | Inr (Some product, st1) \<Rightarrow>
          Inr (\<lparr>status = 200, json = Data_text ''Producto Eliminado''\<rparr>,
               product_destroy product st1))"

section \<open>The router\<close>

text \<open>
  Modelled from the spec: the middleware \<open>handleInputErrors\<close> is not among the
  sources. When a rule of the route failed, the request is rejected before the handler
  runs, with status 400 and the ordered sequence of the entries, one per failed rule;
  otherwise the handler is invoked.
\<close>

definition handleInputErrors :: "chain list \<Rightarrow> handler \<Rightarrow> handler" where
  "handleInputErrors chs handler req st =
     (let errors = validationResult chs req
      in if errors \<noteq> [] then Inr (\<lparr>status = 400, json = Errors errors\<rparr>, st)
         else handler req st)"

text \<open>The six routes of \<open>router.ts\<close>; the routes on \<open>/:id\<close> get the path parameter
  \<open>id\<close> in \<open>params\<close>.\<close>

definition router_get :: handler where
  "router_get = getProducts"

definition router_get_id :: handler where
  "router_get_id = handleInputErrors [param_id] getProductById"

definition router_post :: handler where
  "router_post = handleInputErrors [body_name, body_price] createProduct"

definition router_put_id :: handler where
  "router_put_id =
     handleInputErrors [param_id, body_name, body_price, body_availability] updateProduct"

definition router_patch_id :: handler where
  "router_patch_id = handleInputErrors [param_id] updateAvailability"

definition router_delete_id :: handler where
  "router_delete_id = handleInputErrors [param_id] deleteProduct"

text \<open>A number of successive requests to one route, each on the store the previous one
  left.\<close>

fun repeat_request :: "handler \<Rightarrow> nat \<Rightarrow> request \<Rightarrow> store \<Rightarrow> error + store" where
  "repeat_request h 0 req st = Inr st"
| "repeat_request h (Suc n) req st =
     (case h req st of Inl e \<Rightarrow> Inl e | Inr (r, st1) \<Rightarrow> repeat_request h n req st1)"

text \<open>The messages of the validation entries of a response.\<close>

definition error_messages :: "response \<Rightarrow> string list" where
  "error_messages r = (case json r of Errors es \<Rightarrow> map msg es | _ \<Rightarrow> [])"

subsection \<open>A store as the tests seed it\<close>

definition empty_store :: store where
  "empty_store = \<lparr>rows = [], next_id = 1, calls = []\<rparr>"

definition mouse :: product where
  "mouse = \<lparr>product_id = 1, name = JStr ''Mouse - TEST'', price = JNum 500,
            availability = JBool True\<rparr>"

definition seeded_store :: store where
  "seeded_store = \<lparr>rows = [mouse], next_id = 2, calls = []\<rparr>"

section \<open>Validation and lookup\<close>

lemma run_param_id:
  "map_of (params req) ''id'' = Some i \<Longrightarrow>
   run_chain req param_id =
     (if isInt i then []
      else [\<lparr>msg = ''ID no valido'', path = ''id'', location = Params, value = JStr i\<rparr>])"
  by (simp add: run_chain_def param_id_def select_field_def)

lemma validation_cons:
  "validationResult (ch # chs) req = run_chain req ch @ validationResult chs req"
  by (simp add: validationResult_def)

lemma validation_nil: "validationResult [] req = []"
  by (simp add: validationResult_def)

lemma select_body_absent:
  "map_of (body req) f = None \<Longrightarrow> select_field req Body f = JUndefined"
  by (simp add: select_field_def)

lemma body_name_absent:
  "map_of (body req) ''name'' = None \<Longrightarrow>
   run_chain req body_name =
     [\<lparr>msg = ''El nombre del producto no puede ir vacio'', path = ''name'', location = Body,
       value = JUndefined\<rparr>]"
  by (simp add: run_chain_def body_name_def select_body_absent isEmpty_def)

lemma body_price_absent:
  "map_of (body req) ''price'' = None \<Longrightarrow>
   run_chain req body_price =
     [\<lparr>msg = ''Valor no v'' @ [CHR 0xE1] @ ''lido'', path = ''price'', location = Body,
       value = JUndefined\<rparr>,
      \<lparr>msg = ''El nombre del producto no puede ir vacio'', path = ''price'', location = Body,
       value = JUndefined\<rparr>,
      \<lparr>msg = ''Precio no valido'', path = ''price'', location = Body, value = JUndefined\<rparr>]"
  by (simp add: run_chain_def body_price_def select_body_absent isEmpty_def isNumeric_def
      strip_sign_def)

lemma body_availability_absent:
  "map_of (body req) ''availability'' = None \<Longrightarrow>
   run_chain req body_availability =
     [\<lparr>msg = ''El campo no puede ir vacio'', path = ''availability'', location = Body,
       value = JUndefined\<rparr>]"
  by (simp add: run_chain_def body_availability_def select_body_absent isBoolean_def)

lemma handleInputErrors_pass:
  "validationResult chs req = [] \<Longrightarrow> handleInputErrors chs h req st = h req st"
  by (simp add: handleInputErrors_def)

lemma handleInputErrors_fail:
  "validationResult chs req \<noteq> [] \<Longrightarrow>
   handleInputErrors chs h req st =
     Inr (\<lparr>status = 400, json = Errors (validationResult chs req)\<rparr>, st)"
  by (simp add: handleInputErrors_def)

lemma id_route:
  assumes "map_of (params req) ''id'' = Some i" "isInt i"
  shows "handleInputErrors [param_id] h req st = h req st"
  using assms by (simp add: handleInputErrors_pass validation_cons validation_nil run_param_id)

lemma id_route_invalid:
  assumes "map_of (params req) ''id'' = Some i" "\<not> isInt i"
  shows "handleInputErrors (param_id # chs) h req st =
     Inr (\<lparr>status = 400,
           json = Errors (\<lparr>msg = ''ID no valido'', path = ''id'', location = Params,
                            value = JStr i\<rparr> # validationResult chs req)\<rparr>, st)"
  using assms by (simp add: handleInputErrors_fail validation_cons run_param_id)

lemma to_int_isInt: "to_int i = Some k \<Longrightarrow> isInt i"
  by (simp add: to_int_def split: if_splits)

lemma isInt_to_int: "isInt i \<Longrightarrow> \<exists>k. to_int i = Some k"
  by (simp add: to_int_def)

lemma findByPk_int:
  "to_int i = Some k \<Longrightarrow>
   Product_findByPk (Some i) st =
     Inr (find_row k (rows st), st\<lparr>calls := calls st @ [FindByPk i]\<rparr>)"
  by (simp add: Product_findByPk_def)

subsection \<open>Rows\<close>

lemma find_row_id: "find_row k rs = Some p \<Longrightarrow> product_id p = k"
  by (auto simp: find_row_def find_Some_iff)

lemma find_row_write_same:
  "find_row k rs = Some p \<Longrightarrow> product_id q = k \<Longrightarrow> find_row k (write_row q rs) = Some q"
  by (induction rs) (auto simp: find_row_def write_row_def split: if_splits)

lemma find_row_write_other:
  "j \<noteq> product_id q \<Longrightarrow> find_row j (write_row q rs) = find_row j rs"
  by (induction rs) (auto simp: find_row_def write_row_def)

lemma find_row_filter: "find_row k (filter (\<lambda>r. product_id r \<noteq> k) rs) = None"
  by (induction rs) (auto simp: find_row_def)

lemma find_row_filter_other:
  "j \<noteq> k \<Longrightarrow> find_row j (filter (\<lambda>r. product_id r \<noteq> k) rs) = find_row j rs"
  by (induction rs) (auto simp: find_row_def)

lemma filter_write_row:
  "filter (\<lambda>r. product_id r \<noteq> product_id q) (write_row q rs)
     = filter (\<lambda>r. product_id r \<noteq> product_id q) rs"
  by (induction rs) (auto simp: write_row_def)

lemma ids_write_row: "map product_id (write_row q rs) = map product_id rs"
  by (simp add: write_row_def)

lemma sorted_desc:
  "sorted_wrt (\<lambda>a b. product_id b \<le> product_id a) (rev (sort_key product_id rs))"
  using sorted_sort_key [of product_id rs]
  by (simp add: sorted_wrt_rev sorted_map)

section \<open>The handlers on a missing and on an existing product\<close>

lemma getProductById_missing:
  assumes "map_of (params req) ''id'' = Some i" "to_int i = Some k" "find_row k (rows st) = None"
  shows "getProductById req st =
           Inr (\<lparr>status = 404, json = Error_text ''Producto no encontrado''\<rparr>,
                st\<lparr>calls := calls st @ [FindByPk i]\<rparr>)"
  using assms by (simp add: getProductById_def findByPk_int)

lemma updateProduct_missing:
  assumes "map_of (params req) ''id'' = Some i" "to_int i = Some k" "find_row k (rows st) = None"
  shows "updateProduct req st =
           Inr (\<lparr>status = 404, json = Error_text ''Producto no encontrado''\<rparr>,
                st\<lparr>calls := calls st @ [FindByPk i]\<rparr>)"
  using assms by (simp add: updateProduct_def findByPk_int)

lemma updateAvailability_missing:
  assumes "map_of (params req) ''id'' = Some i" "to_int i = Some k" "find_row k (rows st) = None"
  shows "updateAvailability req st =
           Inr (\<lparr>status = 404, json = Error_text ''Producto no encontrado''\<rparr>,
                st\<lparr>calls := calls st @ [FindByPk i]\<rparr>)"
  using assms by (simp add: updateAvailability_def findByPk_int)

lemma deleteProduct_missing:
  assumes "map_of (params req) ''id'' = Some i" "to_int i = Some k" "find_row k (rows st) = None"
  shows "deleteProduct req st =
           Inr (\<lparr>status = 404, json = Error_text ''Producto no encontrado''\<rparr>,
                st\<lparr>calls := calls st @ [FindByPk i]\<rparr>)"
  using assms by (simp add: deleteProduct_def findByPk_int)

lemma put_route_missing:
  assumes "map_of (params req) ''id'' = Some i" "to_int i = Some k" "find_row k (rows st) = None"
  shows "router_put_id req st =
     (if validationResult [body_name, body_price, body_availability] req = []
      then Inr (\<lparr>status = 404, json = Error_text ''Producto no encontrado''\<rparr>,
                st\<lparr>calls := calls st @ [FindByPk i]\<rparr>)
      else Inr (\<lparr>status = 400,
                 json = Errors (validationResult [body_name, body_price, body_availability] req)\<rparr>,
                st))"
  unfolding router_put_id_def
  using to_int_isInt [OF assms(2)]
  by (simp add: handleInputErrors_def validation_cons [of param_id] run_param_id [OF assms(1)]
      updateProduct_missing [OF assms])

lemma updateAvailability_found:
  assumes "map_of (params req) ''id'' = Some i" "to_int i = Some k" "find_row k (rows st) = Some p"
  shows "updateAvailability req st =
           Inr (\<lparr>status = 200,
                 json = Data_product (p\<lparr>availability := JBool (\<not> js_truthy (availability p))\<rparr>)\<rparr>,
                st\<lparr>rows := write_row (p\<lparr>availability := JBool (\<not> js_truthy (availability p))\<rparr>) (rows st),
                   calls := calls st @ [FindByPk i, Save k]\<rparr>)"
  using assms find_row_id [OF assms(3)]
  by (simp add: updateAvailability_def findByPk_int product_save_def Let_def)

lemma deleteProduct_found:
  assumes "map_of (params req) ''id'' = Some i" "to_int i = Some k" "find_row k (rows st) = Some p"
  shows "deleteProduct req st =
           Inr (\<lparr>status = 200, json = Data_text ''Producto Eliminado''\<rparr>,
                st\<lparr>rows := filter (\<lambda>r. product_id r \<noteq> k) (rows st),
                   calls := calls st @ [FindByPk i, Destroy k]\<rparr>)"
  using assms find_row_id [OF assms(3)]
  by (simp add: deleteProduct_def findByPk_int product_destroy_def)

lemma patch_route_handler:
  assumes "map_of (params req) ''id'' = Some i" "to_int i = Some k"
  shows "router_patch_id req st = updateAvailability req st"
  unfolding router_patch_id_def
  by (rule id_route [OF assms(1) to_int_isInt [OF assms(2)]])

lemma patch_route_found:
  assumes "map_of (params req) ''id'' = Some i" "to_int i = Some k" "find_row k (rows st) = Some p"
  shows "router_patch_id req st =
           Inr (\<lparr>status = 200,
                 json = Data_product (p\<lparr>availability := JBool (\<not> js_truthy (availability p))\<rparr>)\<rparr>,
                st\<lparr>rows := write_row (p\<lparr>availability := JBool (\<not> js_truthy (availability p))\<rparr>) (rows st),
                   calls := calls st @ [FindByPk i, Save k]\<rparr>)"
  by (simp only: patch_route_handler [OF assms(1,2)] updateAvailability_found [OF assms])

lemma patch_route_row:
  assumes "map_of (params req) ''id'' = Some i" "to_int i = Some k" "find_row k (rows st) = Some p"
  shows "\<exists>r st1. router_patch_id req st = Inr (r, st1) \<and>
           find_row k (rows st1) = Some (p\<lparr>availability := JBool (\<not> js_truthy (availability p))\<rparr>)"
  using find_row_id [OF assms(3)]
  by (simp add: patch_route_found [OF assms] find_row_write_same [OF assms(3)])

lemma patch_twice_row:
  assumes "map_of (params req) ''id'' = Some i" "to_int i = Some k" "find_row k (rows st) = Some p"
    and "availability p = JBool b"
  shows "\<exists>st2. repeat_request router_patch_id 2 req st = Inr st2 \<and> find_row k (rows st2) = Some p"
proof -
  let ?q = "p\<lparr>availability := JBool (\<not> js_truthy (availability p))\<rparr>"
  obtain r st1 where s1: "router_patch_id req st = Inr (r, st1)" "find_row k (rows st1) = Some ?q"
    using patch_route_row [OF assms(1-3)] by blast
  have restored: "?q\<lparr>availability := JBool (\<not> js_truthy (availability ?q))\<rparr> = p"
    using assms(4) by simp
  obtain r' st2 where s2: "router_patch_id req st1 = Inr (r', st2)" "find_row k (rows st2) = Some p"
    using patch_route_row [OF assms(1,2) s1(2)] unfolding restored by blast
  have "repeat_request router_patch_id 2 req st = Inr st2"
    using s1(1) s2(1) by (simp add: numeral_2_eq_2)
  with s2(2) show ?thesis by blast
qed

lemma repeat_request_add:
  "repeat_request h (m + n) req st =
     (case repeat_request h m req st of Inl e \<Rightarrow> Inl e | Inr st1 \<Rightarrow> repeat_request h n req st1)"
  by (induction m arbitrary: st) (auto split: sum.splits)

lemma patch_even_row:
  assumes "map_of (params req) ''id'' = Some i" "to_int i = Some k" "availability p = JBool b"
  shows "find_row k (rows st) = Some p \<Longrightarrow>
         \<exists>st'. repeat_request router_patch_id (2 * n) req st = Inr st' \<and> find_row k (rows st') = Some p"
proof (induction n arbitrary: st)
  case 0
  then show ?case by simp
next
  case (Suc n)
  obtain st2 where s2: "repeat_request router_patch_id 2 req st = Inr st2" "find_row k (rows st2) = Some p"
    using patch_twice_row [OF assms(1,2) Suc.prems assms(3)] by blast
  obtain st' where s3: "repeat_request router_patch_id (2 * n) req st2 = Inr st'" "find_row k (rows st') = Some p"
    using Suc.IH [OF s2(2)] by blast
  have "2 * Suc n = 2 + 2 * n" by simp
  then have "repeat_request router_patch_id (2 * Suc n) req st = Inr st'"
    using s2(1) s3(1) by (simp only: repeat_request_add sum.case)
  with s3(2) show ?case by blast
qed

lemma repeat_patch_handler:
  assumes "map_of (params req) ''id'' = Some i" "to_int i = Some k"
  shows "repeat_request router_patch_id n req st = repeat_request updateAvailability n req st"
  by (induction n arbitrary: st)
    (simp_all add: patch_route_handler [OF assms] split: sum.splits prod.splits)

text \<open>A request that reaches a handler through its route never makes the lookup fail:
  the \<open>id\<close> has passed \<open>isInt\<close>, so the store can read it.\<close>

lemma id_routes_total:
  assumes "map_of (params req) ''id'' = Some i"
  shows "\<exists>r st1. router_get_id req st = Inr (r, st1)"
    and "\<exists>r st1. router_put_id req st = Inr (r, st1)"
    and "\<exists>r st1. router_patch_id req st = Inr (r, st1)"
    and "\<exists>r st1. router_delete_id req st = Inr (r, st1)"
  unfolding router_get_id_def router_put_id_def router_patch_id_def router_delete_id_def
    handleInputErrors_def getProductById_def updateProduct_def updateAvailability_def
    deleteProduct_def Product_findByPk_def
  using assms
  by (auto simp: Let_def validation_cons run_param_id to_int_def
      split: option.splits prod.splits)

subsection \<open>Numbers under the rules of \<open>price\<close>\<close>

lemma digit_char_digit: "is_digit (digit_char n)"
proof -
  have "nat (n mod 10) < length ''0123456789''" by simp
  then have "''0123456789'' ! nat (n mod 10) \<in> set ''0123456789''" by (rule nth_mem)
  then show ?thesis by (simp only: is_digit_def digit_char_def)
qed

lemma show_digits_digits: "show_digits n \<noteq> [] \<and> list_all is_digit (show_digits n)"
proof (induction n rule: show_digits.induct)
  case (1 n)
  show ?case
  proof (cases "n < 10")
    case True
    then show ?thesis by (subst (1 2) show_digits.simps) (simp add: digit_char_digit)
  next
    case False
    with 1 show ?thesis by (subst (1 2) show_digits.simps) (simp add: digit_char_digit)
  qed
qed

lemma digit_char_nonzero:
  assumes "0 < n" "n < 10"
  shows "digit_char n \<noteq> CHR ''0''"
proof -
  obtain k where k: "nat (n mod 10) = Suc k" "k < 9"
    using assms by (cases "nat (n mod 10)") auto
  have "digit_char n = ''123456789'' ! k"
    by (simp add: digit_char_def k(1))
  moreover have "''123456789'' ! k \<in> set ''123456789''"
    using k(2) by (intro nth_mem) simp
  ultimately show ?thesis by auto
qed

lemma show_digits_nonzero: "0 < n \<Longrightarrow> \<exists>d\<in>set (show_digits n). d \<noteq> CHR ''0''"
proof (induction n rule: show_digits.induct)
  case (1 n)
  show ?case
  proof (cases "n < 10")
    case True
    with "1.prems" show ?thesis
      by (subst show_digits.simps) (simp add: digit_char_nonzero)
  next
    case False
    then have "0 < n div 10" by simp
    with 1 False obtain d where "d \<in> set (show_digits (n div 10))" "d \<noteq> CHR ''0''" by blast
    with False show ?thesis by (subst show_digits.simps) auto
  qed
qed

lemma digit_not_sign: "is_digit c \<Longrightarrow> \<not> is_sign c"
  by (auto simp: is_digit_def is_sign_def)

lemma isNumeric_digits:
  assumes "ds \<noteq> []" "list_all is_digit ds"
  shows "isNumeric ds"
proof -
  obtain d r where ds: "ds = d # r" using assms(1) by (cases ds) auto
  with assms(2) have "is_digit d" by simp
  then have s: "strip_sign ds = ds" by (simp add: strip_sign_def ds digit_not_sign)
  have al: "\<forall>x\<in>set ds. is_digit x" using assms(2) by (simp add: list_all_iff)
  then have t: "takeWhile is_digit ds = ds"
    by (simp add: takeWhile_eq_all_conv)
  show ?thesis using al assms(1) by (simp add: isNumeric_def s t)
qed

lemma not_isNumeric_exponent:
  assumes "is_digit d"
  shows "\<not> isNumeric (d # (if r = [] then [] else CHR ''.'' # r) @ ''e+'' @ x)"
proof -
  have e: "\<not> is_digit CHR ''e''" "\<not> is_digit CHR ''.''" by (simp_all add: is_digit_def)
  show ?thesis
    using assms e
    by (auto simp: isNumeric_def strip_sign_def digit_not_sign all_digits_def Let_def)
qed

lemma isNumeric_show_int:
  assumes "0 < c"
  shows "isNumeric (show_int c) = (c < 10 ^ 21)"
proof (cases "c < 10 ^ 21")
  case True
  with assms show ?thesis
    using show_digits_digits [of c]
    by (simp add: show_int_def show_number_def isNumeric_digits)
next
  case False
  let ?ds = "show_digits c"
  show ?thesis
  proof (cases "rev (dropWhile (\<lambda>d. d = CHR ''0'') (rev ?ds))")
    case Nil
    then have "\<forall>d \<in> set ?ds. d = CHR ''0''" by (simp add: dropWhile_eq_Nil_conv)
    with show_digits_nonzero [OF assms] show ?thesis by blast
  next
    case (Cons d r)
    then have "d \<in> set ?ds"
      by (metis list.set_intros(1) set_dropWhileD set_rev)
    then have dig: "is_digit d" using show_digits_digits [of c] by (simp add: list_all_iff)
    have sc: "show_int c = d # (if r = [] then [] else CHR ''.'' # r) @ ''e+''
                @ show_digits (int (length ?ds) - 1)"
      using False assms Cons by (simp add: show_int_def show_number_def Let_def)
    show ?thesis
      unfolding sc using False not_isNumeric_exponent [OF dig, of r] by simp
  qed
qed


text \<open>What passing the rules of POST means for a string name and a number price.\<close>

lemma typed_post_validation:
  assumes "map_of (body req) ''name'' = Some (JStr s)"
    and "map_of (body req) ''price'' = Some (JNum c)"
  shows "(validationResult [body_name, body_price] req = []) = (s \<noteq> [] \<and> 0 < c \<and> c < 10 ^ 21)"
proof (cases "0 < c")
  case True
  have ne: "show_int c \<noteq> []"
    using True show_digits_digits [of c]
    by (auto simp: show_int_def show_number_def Let_def split: list.splits)
  show ?thesis
    using assms True ne
    by (auto simp: validationResult_def run_chain_def body_name_def body_price_def
        select_field_def isEmpty_def isNumeric_show_int)
next
  case False
  then show ?thesis
    using assms
    by (auto simp: validationResult_def run_chain_def body_name_def body_price_def
        select_field_def)
qed

subsection \<open>Creating a product from typed values\<close>


section \<open>The claims\<close>

text \<open>
  C1 (amended). On each of the four routes with an \<open>id\<close> path parameter, a request
  whose \<open>id\<close> is not an integer string is answered with status 400, and the first
  validation entry is the one of the \<open>id\<close> rule, with the message \<open>ID no valido\<close>.
  On GET, PATCH and DELETE it is the only entry; on PUT the entries of the failed body
  rules follow it. The store is returned as it was, with no call made to it, so the
  answer is never a 404.
\<close>

theorem invalid_id_rejected:
  assumes "map_of (params req) ''id'' = Some i" and "\<not> isInt i"
  shows "(let e = \<lparr>msg = ''ID no valido'', path = ''id'', location = Params, value = JStr i\<rparr> in
          router_get_id req st = Inr (\<lparr>status = 400, json = Errors [e]\<rparr>, st) \<and>
          router_patch_id req st = Inr (\<lparr>status = 400, json = Errors [e]\<rparr>, st) \<and>
          router_delete_id req st = Inr (\<lparr>status = 400, json = Errors [e]\<rparr>, st) \<and>
          router_put_id req st =
            Inr (\<lparr>status = 400,
                  json = Errors (e # validationResult [body_name, body_price, body_availability] req)\<rparr>,
                 st))"
  unfolding Let_def router_get_id_def router_patch_id_def router_delete_id_def router_put_id_def
  by (simp add: id_route_invalid [OF assms] validation_nil)

text \<open>The PUT request of the tests, with a valid body and the parameter
  \<open>not-valid-url\<close>: one entry.\<close>

theorem invalid_id_rejected_witness:
  "map_of (params \<lparr>params = [(''id'', ''not-valid-url'')],
                   body = [(''name'', JStr ''monitor curvo''), (''availability'', JBool True),
                           (''price'', JNum 300)]\<rparr>) ''id'' = Some ''not-valid-url''
   \<and> \<not> isInt ''not-valid-url''
   \<and> router_put_id \<lparr>params = [(''id'', ''not-valid-url'')],
                     body = [(''name'', JStr ''monitor curvo''), (''availability'', JBool True),
                             (''price'', JNum 300)]\<rparr> seeded_store =
       Inr (\<lparr>status = 400,
             json = Errors [\<lparr>msg = ''ID no valido'', path = ''id'', location = Params,
                              value = JStr ''not-valid-url''\<rparr>]\<rparr>, seeded_store)"
proof -
  let ?req = "\<lparr>params = [(''id'', ''not-valid-url'')],
                   body = [(''name'', JStr ''monitor curvo''), (''availability'', JBool True),
                           (''price'', JNum 300)]\<rparr>"
  have h1: "map_of (params ?req) ''id'' = Some ''not-valid-url''" by simp
  have h2: "\<not> isInt ''not-valid-url''" by code_simp
  have v: "validationResult [body_name, body_price, body_availability] ?req = []" by code_simp
  show ?thesis
    using invalid_id_rejected [OF h1 h2, of seeded_store] h2 by (simp add: Let_def v)
qed

text \<open>The message of the entry is not \<open>invalid id\<close>, and a PUT with an invalid
  \<open>id\<close> and an empty body carries six entries, not one.\<close>

theorem invalid_id_counterexample:
  "router_get_id \<lparr>params = [(''id'', ''not-valid-url'')], body = []\<rparr> seeded_store =
     Inr (\<lparr>status = 400,
           json = Errors [\<lparr>msg = ''ID no valido'', path = ''id'', location = Params,
                            value = JStr ''not-valid-url''\<rparr>]\<rparr>, seeded_store)
   \<and> ''ID no valido'' \<noteq> ''invalid id''
   \<and> map_sum id (\<lambda>(r, st). length (error_messages r))
        (router_put_id \<lparr>params = [(''id'', ''not-valid-url'')], body = []\<rparr> seeded_store) = Inr 6"
  by code_simp

text \<open>
  C2 (amended). PATCH on an existing product whose availability is a boolean answers 200
  with the product carrying the negated value in its data, and stores it; two requests
  in succession, and any even number of them, leave the product as it was.
\<close>

theorem patch_toggles_availability:
  assumes "map_of (params req) ''id'' = Some i" and "to_int i = Some k"
    and "find_row k (rows st) = Some p" and "availability p = JBool b"
  shows "(let q = p\<lparr>availability := JBool (\<not> b)\<rparr>;
              st1 = st\<lparr>rows := write_row q (rows st),
                        calls := calls st @ [FindByPk i, Save k]\<rparr> in
          updateAvailability req st = Inr (\<lparr>status = 200, json = Data_product q\<rparr>, st1) \<and>
          router_patch_id req st = Inr (\<lparr>status = 200, json = Data_product q\<rparr>, st1) \<and>
          find_row k (rows st1) = Some q \<and>
          (\<exists>st2. repeat_request updateAvailability 2 req st = Inr st2 \<and>
                 repeat_request router_patch_id 2 req st = Inr st2 \<and>
                 find_row k (rows st2) = Some p) \<and>
          (\<exists>st'. repeat_request updateAvailability (2 * n) req st = Inr st' \<and>
                 repeat_request router_patch_id (2 * n) req st = Inr st' \<and>
                 find_row k (rows st') = Some p))"
proof -
  let ?q = "p\<lparr>availability := JBool (\<not> b)\<rparr>"
  let ?st1 = "st\<lparr>rows := write_row ?q (rows st), calls := calls st @ [FindByPk i, Save k]\<rparr>"
  have a: "updateAvailability req st = Inr (\<lparr>status = 200, json = Data_product ?q\<rparr>, ?st1)"
    using updateAvailability_found [OF assms(1-3)] assms(4) by simp
  have a': "router_patch_id req st = Inr (\<lparr>status = 200, json = Data_product ?q\<rparr>, ?st1)"
    using patch_route_found [OF assms(1-3)] assms(4) by simp
  have b: "find_row k (rows ?st1) = Some ?q"
    using find_row_id [OF assms(3)] by (simp add: find_row_write_same [OF assms(3)])
  have c: "\<exists>st2. repeat_request updateAvailability 2 req st = Inr st2 \<and>
                 repeat_request router_patch_id 2 req st = Inr st2 \<and>
                 find_row k (rows st2) = Some p"
    using patch_twice_row [OF assms] by (simp add: repeat_patch_handler [OF assms(1,2)])
  have d: "\<exists>st'. repeat_request updateAvailability (2 * n) req st = Inr st' \<and>
                 repeat_request router_patch_id (2 * n) req st = Inr st' \<and>
                 find_row k (rows st') = Some p"
    using patch_even_row [OF assms(1,2,4,3), of n]
    by (simp add: repeat_patch_handler [OF assms(1,2)])
  from a a' b c d show ?thesis unfolding Let_def by blast
qed

text \<open>The seeded product is available; one PATCH stores it as unavailable, a second
  one restores it.\<close>

theorem patch_toggles_availability_witness:
  "map_of (params \<lparr>params = [(''id'', ''1'')], body = []\<rparr>) ''id'' = Some ''1''
   \<and> to_int ''1'' = Some 1
   \<and> find_row 1 (rows seeded_store) = Some mouse
   \<and> availability mouse = JBool True
   \<and> router_patch_id \<lparr>params = [(''id'', ''1'')], body = []\<rparr> seeded_store =
       Inr (\<lparr>status = 200, json = Data_product (mouse\<lparr>availability := JBool False\<rparr>)\<rparr>,
            \<lparr>rows = [mouse\<lparr>availability := JBool False\<rparr>], next_id = 2,
             calls = [FindByPk ''1'', Save 1]\<rparr>)
   \<and> (\<exists>st2. repeat_request router_patch_id 2 \<lparr>params = [(''id'', ''1'')], body = []\<rparr>
                seeded_store = Inr st2
          \<and> find_row 1 (rows st2) = Some mouse)"
proof -
  let ?req = "\<lparr>params = [(''id'', ''1'')], body = []\<rparr>"
  have h1: "map_of (params ?req) ''id'' = Some ''1''" by simp
  have h2: "to_int ''1'' = Some 1" by code_simp
  have h3: "find_row 1 (rows seeded_store) = Some mouse"
    by (simp add: find_row_def seeded_store_def mouse_def)
  have h4: "availability mouse = JBool True" by (simp add: mouse_def)
  have w: "seeded_store\<lparr>rows := write_row (mouse\<lparr>availability := JBool False\<rparr>) (rows seeded_store),
                        calls := calls seeded_store @ [FindByPk ''1'', Save 1]\<rparr>
             = \<lparr>rows = [mouse\<lparr>availability := JBool False\<rparr>], next_id = 2,
                calls = [FindByPk ''1'', Save 1]\<rparr>"
    by (simp add: write_row_def seeded_store_def mouse_def)
  have "router_patch_id ?req seeded_store =
       Inr (\<lparr>status = 200, json = Data_product (mouse\<lparr>availability := JBool False\<rparr>)\<rparr>,
            \<lparr>rows = [mouse\<lparr>availability := JBool False\<rparr>], next_id = 2,
             calls = [FindByPk ''1'', Save 1]\<rparr>)"
    and "\<exists>st2. repeat_request router_patch_id 2 ?req seeded_store = Inr st2
          \<and> find_row 1 (rows st2) = Some mouse"
    using patch_toggles_availability [OF h1 h2 h3 h4, of 1]
    unfolding Let_def by (auto simp: w)
  with h1 h2 h3 h4 show ?thesis by blast
qed

text \<open>Not every product has a boolean availability: POST has no rule on it and hands
  the body on, so \<open>availability: null\<close> is stored. Two PATCH requests leave that product
  with \<open>false\<close>, not with the \<open>null\<close> it had.\<close>

theorem patch_toggles_availability_counterexample:
  "router_post \<lparr>params = [], body = [(''name'', JStr ''Mouse - TEST''), (''price'', JNum 500),
                                      (''availability'', JNull)]\<rparr> empty_store =
     Inr (\<lparr>status = 201,
           json = Data_product \<lparr>product_id = 1, name = JStr ''Mouse - TEST'', price = JNum 500,
                                availability = JNull\<rparr>\<rparr>,
          \<lparr>rows = [\<lparr>product_id = 1, name = JStr ''Mouse - TEST'', price = JNum 500,
                    availability = JNull\<rparr>],
           next_id = 2,
           calls = [Create [(''name'', JStr ''Mouse - TEST''), (''price'', JNum 500),
                            (''availability'', JNull)]]\<rparr>)
   \<and> repeat_request router_patch_id 2 \<lparr>params = [(''id'', ''1'')], body = []\<rparr>
        \<lparr>rows = [\<lparr>product_id = 1, name = JStr ''Mouse - TEST'', price = JNum 500,
                  availability = JNull\<rparr>],
         next_id = 2,
         calls = [Create [(''name'', JStr ''Mouse - TEST''), (''price'', JNum 500),
                          (''availability'', JNull)]]\<rparr> =
       Inr \<lparr>rows = [\<lparr>product_id = 1, name = JStr ''Mouse - TEST'', price = JNum 500,
                      availability = JBool False\<rparr>],
            next_id = 2,
            calls = [Create [(''name'', JStr ''Mouse - TEST''), (''price'', JNum 500),
                             (''availability'', JNull)],
                     FindByPk ''1'', Save 1, FindByPk ''1'', Save 1]\<rparr>
   \<and> JBool False \<noteq> JNull"
  by code_simp

text \<open>
  C3 (amended). A GET with an integer \<open>id\<close> that matches no row is answered with
  status 404 and the body \<open>{error: "Producto no encontrado"}\<close>, after one lookup; PATCH
  and DELETE answer the same, and so does PUT when its body passes validation.
\<close>

theorem missing_product_404:
  assumes "map_of (params req) ''id'' = Some i" and "to_int i = Some k"
    and "find_row k (rows st) = None"
  shows "(let nf = Inr (\<lparr>status = 404, json = Error_text ''Producto no encontrado''\<rparr>,
                        st\<lparr>calls := calls st @ [FindByPk i]\<rparr>) in
          getProductById req st = nf \<and>
          router_get_id req st = nf \<and>
          router_patch_id req st = nf \<and>
          router_delete_id req st = nf \<and>
          (validationResult [body_name, body_price, body_availability] req = []
             \<longrightarrow> router_put_id req st = nf))"
  unfolding Let_def router_get_id_def router_patch_id_def router_delete_id_def
  by (simp add: id_route [OF assms(1) to_int_isInt [OF assms(2)]] put_route_missing [OF assms]
      getProductById_missing [OF assms] updateAvailability_missing [OF assms]
      deleteProduct_missing [OF assms])

text \<open>The requests of the tests for the id 2000, on the seeded store.\<close>

theorem missing_product_404_witness:
  "map_of (params \<lparr>params = [(''id'', ''2000'')],
                   body = [(''name'', JStr ''monitor curvo''), (''availability'', JBool True),
                           (''price'', JNum 300)]\<rparr>) ''id'' = Some ''2000''
   \<and> to_int ''2000'' = Some 2000
   \<and> find_row 2000 (rows seeded_store) = None
   \<and> validationResult [body_name, body_price, body_availability]
        \<lparr>params = [(''id'', ''2000'')],
         body = [(''name'', JStr ''monitor curvo''), (''availability'', JBool True),
                 (''price'', JNum 300)]\<rparr> = []
   \<and> router_put_id \<lparr>params = [(''id'', ''2000'')],
                     body = [(''name'', JStr ''monitor curvo''), (''availability'', JBool True),
                             (''price'', JNum 300)]\<rparr> seeded_store =
       Inr (\<lparr>status = 404, json = Error_text ''Producto no encontrado''\<rparr>,
            seeded_store\<lparr>calls := calls seeded_store @ [FindByPk ''2000'']\<rparr>)
   \<and> router_get_id \<lparr>params = [(''id'', ''2000'')],
                     body = [(''name'', JStr ''monitor curvo''), (''availability'', JBool True),
                             (''price'', JNum 300)]\<rparr> seeded_store =
       Inr (\<lparr>status = 404, json = Error_text ''Producto no encontrado''\<rparr>,
            seeded_store\<lparr>calls := calls seeded_store @ [FindByPk ''2000'']\<rparr>)"
proof -
  let ?req = "\<lparr>params = [(''id'', ''2000'')],
                   body = [(''name'', JStr ''monitor curvo''), (''availability'', JBool True),
                           (''price'', JNum 300)]\<rparr>"
  have h1: "map_of (params ?req) ''id'' = Some ''2000''" by simp
  have h2: "to_int ''2000'' = Some 2000" by code_simp
  have h3: "find_row 2000 (rows seeded_store) = None"
    by (simp add: find_row_def seeded_store_def mouse_def)
  have v: "validationResult [body_name, body_price, body_availability] ?req = []" by code_simp
  show ?thesis
    using missing_product_404 [OF h1 h2 h3] h1 h2 h3 v by (simp add: Let_def)
qed

text \<open>The body of the 404 is not \<open>{error: "Product not found"}\<close>.\<close>

theorem missing_product_404_counterexample:
  "router_get_id \<lparr>params = [(''id'', ''2000'')], body = []\<rparr> seeded_store =
     Inr (\<lparr>status = 404, json = Error_text ''Producto no encontrado''\<rparr>,
          \<lparr>rows = [mouse], next_id = 2, calls = [FindByPk ''2000'']\<rparr>)
   \<and> Error_text ''Producto no encontrado'' \<noteq> Error_text ''Product not found''"
  by code_simp

text \<open>
  C4 (amended). DELETE on an existing product answers 200 with the string
  \<open>Producto Eliminado\<close> as its data, not the product; no row with that id is left in
  the store, and a GET for the same id on the store it leaves is answered with the 404.
\<close>

theorem delete_removes_product:
  assumes "map_of (params req) ''id'' = Some i" and "to_int i = Some k"
    and "find_row k (rows st) = Some p"
    and "map_of (params req') ''id'' = Some i'" and "to_int i' = Some k"
  shows "(let st1 = st\<lparr>rows := filter (\<lambda>r. product_id r \<noteq> k) (rows st),
                       calls := calls st @ [FindByPk i, Destroy k]\<rparr> in
          deleteProduct req st =
            Inr (\<lparr>status = 200, json = Data_text ''Producto Eliminado''\<rparr>, st1) \<and>
          router_delete_id req st =
            Inr (\<lparr>status = 200, json = Data_text ''Producto Eliminado''\<rparr>, st1) \<and>
          find_row k (rows st1) = None \<and>
          router_get_id req' st1 =
            Inr (\<lparr>status = 404, json = Error_text ''Producto no encontrado''\<rparr>,
                 st1\<lparr>calls := calls st1 @ [FindByPk i']\<rparr>))"
proof -
  let ?st1 = "st\<lparr>rows := filter (\<lambda>r. product_id r \<noteq> k) (rows st),
                       calls := calls st @ [FindByPk i, Destroy k]\<rparr>"
  note a = deleteProduct_found [OF assms(1-3)]
  have a': "router_delete_id req st =
            Inr (\<lparr>status = 200, json = Data_text ''Producto Eliminado''\<rparr>, ?st1)"
    unfolding router_delete_id_def
    by (simp only: id_route [OF assms(1) to_int_isInt [OF assms(2)]] a)
  have b: "find_row k (rows ?st1) = None" by (simp add: find_row_filter)
  have c: "router_get_id req' ?st1 =
            Inr (\<lparr>status = 404, json = Error_text ''Producto no encontrado''\<rparr>,
                 ?st1\<lparr>calls := calls ?st1 @ [FindByPk i']\<rparr>)"
    unfolding router_get_id_def
    by (simp only: id_route [OF assms(4) to_int_isInt [OF assms(5)]]
        getProductById_missing [OF assms(4,5) b])
  from a a' b c show ?thesis unfolding Let_def by blast
qed

text \<open>Deleting the seeded product, then asking for it.\<close>

theorem delete_removes_product_witness:
  "map_of (params \<lparr>params = [(''id'', ''1'')], body = []\<rparr>) ''id'' = Some ''1''
   \<and> to_int ''1'' = Some 1
   \<and> find_row 1 (rows seeded_store) = Some mouse
   \<and> router_delete_id \<lparr>params = [(''id'', ''1'')], body = []\<rparr> seeded_store =
       Inr (\<lparr>status = 200, json = Data_text ''Producto Eliminado''\<rparr>,
            \<lparr>rows = [], next_id = 2, calls = [FindByPk ''1'', Destroy 1]\<rparr>)
   \<and> router_get_id \<lparr>params = [(''id'', ''1'')], body = []\<rparr>
        \<lparr>rows = [], next_id = 2, calls = [FindByPk ''1'', Destroy 1]\<rparr> =
       Inr (\<lparr>status = 404, json = Error_text ''Producto no encontrado''\<rparr>,
            \<lparr>rows = [], next_id = 2, calls = [FindByPk ''1'', Destroy 1, FindByPk ''1'']\<rparr>)"
proof -
  let ?req = "\<lparr>params = [(''id'', ''1'')], body = []\<rparr>"
  have h1: "map_of (params ?req) ''id'' = Some ''1''" by simp
  have h2: "to_int ''1'' = Some 1" by code_simp
  have h3: "find_row 1 (rows seeded_store) = Some mouse"
    by (simp add: find_row_def seeded_store_def mouse_def)
  have s: "seeded_store\<lparr>rows := filter (\<lambda>r. product_id r \<noteq> 1) (rows seeded_store),
                       calls := calls seeded_store @ [FindByPk ''1'', Destroy 1]\<rparr>
           = \<lparr>rows = [], next_id = 2, calls = [FindByPk ''1'', Destroy 1]\<rparr>"
    by (simp add: seeded_store_def mouse_def)
  show ?thesis
    using delete_removes_product [OF h1 h2 h3 h1 h2] h1 h2 h3 unfolding Let_def s by simp
qed

text \<open>The data of the answer is not the string \<open>Product deleted\<close>.\<close>

theorem delete_removes_product_counterexample:
  "router_delete_id \<lparr>params = [(''id'', ''1'')], body = []\<rparr> seeded_store =
     Inr (\<lparr>status = 200, json = Data_text ''Producto Eliminado''\<rparr>,
          \<lparr>rows = [], next_id = 2, calls = [FindByPk ''1'', Destroy 1]\<rparr>)
   \<and> Data_text ''Producto Eliminado'' \<noteq> Data_text ''Product deleted''"
  by code_simp

text \<open>
  C5. A POST whose body is empty is answered with status 400 and exactly four
  validation entries, in the order of the rules: \<open>name\<close> not empty, \<open>price\<close> numeric,
  \<open>price\<close> not empty, \<open>price\<close> greater than zero. The store is not touched.
\<close>

theorem post_empty_body_errors:
  assumes "body req = []"
  shows "router_post req st =
     Inr (\<lparr>status = 400,
           json = Errors
             [\<lparr>msg = ''El nombre del producto no puede ir vacio'', path = ''name'',
               location = Body, value = JUndefined\<rparr>,
              \<lparr>msg = ''Valor no v'' @ [CHR 0xE1] @ ''lido'', path = ''price'',
               location = Body, value = JUndefined\<rparr>,
              \<lparr>msg = ''El nombre del producto no puede ir vacio'', path = ''price'',
               location = Body, value = JUndefined\<rparr>,
              \<lparr>msg = ''Precio no valido'', path = ''price'', location = Body,
               value = JUndefined\<rparr>]\<rparr>, st)"
proof -
  have n: "map_of (body req) ''name'' = None" and p: "map_of (body req) ''price'' = None"
    using assms by simp_all
  show ?thesis
    unfolding router_post_def handleInputErrors_def
    by (simp add: validation_cons validation_nil body_name_absent [OF n] body_price_absent [OF p])
qed

text \<open>The empty POST of the tests.\<close>

theorem post_empty_body_errors_witness:
  "body \<lparr>params = [], body = []\<rparr> = []
   \<and> map_sum id (\<lambda>(r, st). (status r, length (error_messages r), st))
        (router_post \<lparr>params = [], body = []\<rparr> empty_store) = Inr (400, 4, empty_store)"
proof -
  have h: "body \<lparr>params = [], body = []\<rparr> = []" by simp
  show ?thesis
    using post_empty_body_errors [OF h, of empty_store] by (simp add: error_messages_def)
qed

text \<open>
  C6. A PUT with an integer \<open>id\<close> and none of \<open>name\<close>, \<open>price\<close>, \<open>availability\<close> in
  its body is answered with status 400 and exactly five validation entries: one for
  \<open>name\<close>, three for \<open>price\<close>, one for \<open>availability\<close>. The store is not touched.
\<close>

theorem put_missing_fields_errors:
  assumes "map_of (params req) ''id'' = Some i" and "isInt i"
    and "map_of (body req) ''name'' = None"
    and "map_of (body req) ''price'' = None"
    and "map_of (body req) ''availability'' = None"
  shows "router_put_id req st =
     Inr (\<lparr>status = 400,
           json = Errors
             [\<lparr>msg = ''El nombre del producto no puede ir vacio'', path = ''name'',
               location = Body, value = JUndefined\<rparr>,
              \<lparr>msg = ''Valor no v'' @ [CHR 0xE1] @ ''lido'', path = ''price'',
               location = Body, value = JUndefined\<rparr>,
              \<lparr>msg = ''El nombre del producto no puede ir vacio'', path = ''price'',
               location = Body, value = JUndefined\<rparr>,
              \<lparr>msg = ''Precio no valido'', path = ''price'', location = Body,
               value = JUndefined\<rparr>,
              \<lparr>msg = ''El campo no puede ir vacio'', path = ''availability'',
               location = Body, value = JUndefined\<rparr>]\<rparr>, st)"
  unfolding router_put_id_def handleInputErrors_def
  using assms(2)
  by (simp add: validation_cons validation_nil run_param_id [OF assms(1)]
      body_name_absent [OF assms(3)] body_price_absent [OF assms(4)]
      body_availability_absent [OF assms(5)])

text \<open>The empty PUT of the tests, on the id 1.\<close>

theorem put_missing_fields_errors_witness:
  "map_of (params \<lparr>params = [(''id'', ''1'')], body = []\<rparr>) ''id'' = Some ''1''
   \<and> isInt ''1''
   \<and> map_of (body \<lparr>params = [(''id'', ''1'')], body = []\<rparr>) ''name'' = None
   \<and> map_of (body \<lparr>params = [(''id'', ''1'')], body = []\<rparr>) ''price'' = None
   \<and> map_of (body \<lparr>params = [(''id'', ''1'')], body = []\<rparr>) ''availability'' = None
   \<and> map_sum id (\<lambda>(r, st). (status r, length (error_messages r), st))
        (router_put_id \<lparr>params = [(''id'', ''1'')], body = []\<rparr> seeded_store)
       = Inr (400, 5, seeded_store)"
proof -
  let ?req = "\<lparr>params = [(''id'', ''1'')], body = []\<rparr>"
  have h1: "map_of (params ?req) ''id'' = Some ''1''" by simp
  have h2: "isInt ''1''" by code_simp
  have h3: "map_of (body ?req) ''name'' = None" by simp
  have h4: "map_of (body ?req) ''price'' = None" by simp
  have h5: "map_of (body ?req) ''availability'' = None" by simp
  show ?thesis
    using put_missing_fields_errors [OF h1 h2 h3 h4 h5, of seeded_store] h2
    by (simp add: error_messages_def)
qed

text \<open>
  C7. PATCH does not look at the body: whatever body \<open>b\<close> the request carries, on an
  existing product the answer is the 200 with the product whose availability is the
  negation of the stored one; the stored product keeps its id, name and price, the rows
  with other ids are as they were, and so are the ids of the rows and the id sequence.
\<close>

theorem patch_ignores_body:
  assumes "map_of (params req) ''id'' = Some i" and "to_int i = Some k"
    and "find_row k (rows st) = Some p"
  shows "(let q = p\<lparr>availability := JBool (\<not> js_truthy (availability p))\<rparr>;
              st1 = st\<lparr>rows := write_row q (rows st),
                        calls := calls st @ [FindByPk i, Save k]\<rparr> in
          updateAvailability (req\<lparr>body := b\<rparr>) st =
            Inr (\<lparr>status = 200, json = Data_product q\<rparr>, st1) \<and>
          router_patch_id (req\<lparr>body := b\<rparr>) st =
            Inr (\<lparr>status = 200, json = Data_product q\<rparr>, st1) \<and>
          find_row k (rows st1) = Some q \<and>
          product_id q = product_id p \<and> name q = name p \<and> price q = price p \<and>
          filter (\<lambda>r. product_id r \<noteq> k) (rows st1) = filter (\<lambda>r. product_id r \<noteq> k) (rows st) \<and>
          map product_id (rows st1) = map product_id (rows st) \<and>
          next_id st1 = next_id st)"
proof -
  let ?q = "p\<lparr>availability := JBool (\<not> js_truthy (availability p))\<rparr>"
  have pk: "product_id p = k" by (rule find_row_id [OF assms(3)])
  have prm: "map_of (params (req\<lparr>body := b\<rparr>)) ''id'' = Some i" using assms(1) by simp
  note a = updateAvailability_found [OF prm assms(2,3)]
  note a' = patch_route_found [OF prm assms(2,3)]
  have b: "find_row k (write_row ?q (rows st)) = Some ?q"
    using pk by (simp add: find_row_write_same [OF assms(3)])
  have c: "filter (\<lambda>r. product_id r \<noteq> k) (write_row ?q (rows st))
             = filter (\<lambda>r. product_id r \<noteq> k) (rows st)"
    using pk filter_write_row [of ?q "rows st"] by simp
  have d: "map product_id (write_row ?q (rows st)) = map product_id (rows st)"
    by (rule ids_write_row)
  show ?thesis unfolding Let_def using a a' b c d by simp
qed

text \<open>A PATCH on the seeded product that carries the body of a full update.\<close>

theorem patch_ignores_body_witness:
  "map_of (params \<lparr>params = [(''id'', ''1'')], body = []\<rparr>) ''id'' = Some ''1''
   \<and> to_int ''1'' = Some 1
   \<and> find_row 1 (rows seeded_store) = Some mouse
   \<and> router_patch_id
        (\<lparr>params = [(''id'', ''1'')], body = []\<rparr>
           \<lparr>body := [(''name'', JStr ''other''), (''price'', JNum 0), (''availability'', JBool True)]\<rparr>)
        seeded_store =
       Inr (\<lparr>status = 200,
             json = Data_product \<lparr>product_id = 1, name = JStr ''Mouse - TEST'', price = JNum 500,
                                  availability = JBool False\<rparr>\<rparr>,
            \<lparr>rows = [\<lparr>product_id = 1, name = JStr ''Mouse - TEST'', price = JNum 500,
                      availability = JBool False\<rparr>],
             next_id = 2, calls = [FindByPk ''1'', Save 1]\<rparr>)"
proof -
  let ?req = "\<lparr>params = [(''id'', ''1'')], body = []\<rparr>"
  have h1: "map_of (params ?req) ''id'' = Some ''1''" by simp
  have h2: "to_int ''1'' = Some 1" by code_simp
  have h3: "find_row 1 (rows seeded_store) = Some mouse"
    by (simp add: find_row_def seeded_store_def mouse_def)
  show ?thesis
    using patch_ignores_body [OF h1 h2 h3,
        of "[(''name'', JStr ''other''), (''price'', JNum 0), (''availability'', JBool True)]"]
      h1 h2 h3
    unfolding Let_def by (simp add: write_row_def seeded_store_def mouse_def)
qed

text \<open>
  C8. On every store, GET on the collection answers 200 with a list that holds exactly
  the rows of the store, each as often as the store has it, in descending order of id;
  the store's rows are as they were.
\<close>

theorem list_newest_first:
  "\<exists>ps. router_get req st =
          Inr (\<lparr>status = 200, json = Data_list ps\<rparr>, st\<lparr>calls := calls st @ [FindAll]\<rparr>)
        \<and> mset ps = mset (rows st)
        \<and> sorted_wrt (\<lambda>a b. product_id b \<le> product_id a) ps"
  unfolding router_get_def getProducts_def Product_findAll_def
  by (simp add: sorted_desc)

text \<open>A store of two products: the one with id 2 comes first.\<close>

theorem list_newest_first_witness:
  "(\<exists>ps. router_get \<lparr>params = [], body = []\<rparr>
            \<lparr>rows = [mouse, mouse\<lparr>product_id := 2\<rparr>], next_id = 3, calls = []\<rparr> =
          Inr (\<lparr>status = 200, json = Data_list ps\<rparr>,
               \<lparr>rows = [mouse, mouse\<lparr>product_id := 2\<rparr>], next_id = 3, calls = []\<rparr>
                 \<lparr>calls := calls \<lparr>rows = [mouse, mouse\<lparr>product_id := 2\<rparr>], next_id = 3,
                                   calls = []\<rparr> @ [FindAll]\<rparr>)
        \<and> mset ps = mset (rows \<lparr>rows = [mouse, mouse\<lparr>product_id := 2\<rparr>], next_id = 3,
                                 calls = []\<rparr>)
        \<and> sorted_wrt (\<lambda>a b. product_id b \<le> product_id a) ps)
   \<and> router_get \<lparr>params = [], body = []\<rparr>
        \<lparr>rows = [mouse, mouse\<lparr>product_id := 2\<rparr>], next_id = 3, calls = []\<rparr> =
       Inr (\<lparr>status = 200, json = Data_list [mouse\<lparr>product_id := 2\<rparr>, mouse]\<rparr>,
            \<lparr>rows = [mouse, mouse\<lparr>product_id := 2\<rparr>], next_id = 3, calls = [FindAll]\<rparr>)"
proof -
  have "router_get \<lparr>params = [], body = []\<rparr>
        \<lparr>rows = [mouse, mouse\<lparr>product_id := 2\<rparr>], next_id = 3, calls = []\<rparr> =
       Inr (\<lparr>status = 200, json = Data_list [mouse\<lparr>product_id := 2\<rparr>, mouse]\<rparr>,
            \<lparr>rows = [mouse, mouse\<lparr>product_id := 2\<rparr>], next_id = 3, calls = [FindAll]\<rparr>)"
    by (simp add: router_get_def getProducts_def Product_findAll_def mouse_def)
  with list_newest_first [of "\<lparr>params = [], body = []\<rparr>"
      "\<lparr>rows = [mouse, mouse\<lparr>product_id := 2\<rparr>], next_id = 3, calls = []\<rparr>"]
  show ?thesis by blast
qed

text \<open>
  C9. When the \<open>id\<close> is an integer that matches no row, the handlers of PUT, PATCH and
  DELETE answer 404 after the one lookup, without a write: the rows and the id sequence
  of the store are as before. The same holds on the routes; a PUT whose body fails
  validation is answered with 400 there, on the untouched store.
\<close>

theorem missing_product_no_write:
  assumes "map_of (params req) ''id'' = Some i" and "to_int i = Some k"
    and "find_row k (rows st) = None"
  shows "(let nf = \<lparr>status = 404, json = Error_text ''Producto no encontrado''\<rparr>;
              st1 = st\<lparr>calls := calls st @ [FindByPk i]\<rparr> in
          updateProduct req st = Inr (nf, st1) \<and>
          updateAvailability req st = Inr (nf, st1) \<and>
          deleteProduct req st = Inr (nf, st1) \<and>
          rows st1 = rows st \<and> next_id st1 = next_id st \<and>
          router_patch_id req st = Inr (nf, st1) \<and>
          router_delete_id req st = Inr (nf, st1) \<and>
          router_put_id req st =
            (if validationResult [body_name, body_price, body_availability] req = []
             then Inr (nf, st1)
             else Inr (\<lparr>status = 400,
                        json = Errors (validationResult [body_name, body_price, body_availability] req)\<rparr>,
                       st)))"
  unfolding Let_def router_patch_id_def router_delete_id_def
  by (simp add: id_route [OF assms(1) to_int_isInt [OF assms(2)]] put_route_missing [OF assms]
      updateProduct_missing [OF assms] updateAvailability_missing [OF assms]
      deleteProduct_missing [OF assms])

text \<open>The requests of the tests for the id 10, on the seeded store.\<close>

theorem missing_product_no_write_witness:
  "map_of (params \<lparr>params = [(''id'', ''10'')], body = []\<rparr>) ''id'' = Some ''10''
   \<and> to_int ''10'' = Some 10
   \<and> find_row 10 (rows seeded_store) = None
   \<and> router_patch_id \<lparr>params = [(''id'', ''10'')], body = []\<rparr> seeded_store =
       Inr (\<lparr>status = 404, json = Error_text ''Producto no encontrado''\<rparr>,
            \<lparr>rows = [mouse], next_id = 2, calls = [FindByPk ''10'']\<rparr>)
   \<and> router_delete_id \<lparr>params = [(''id'', ''10'')], body = []\<rparr> seeded_store =
       Inr (\<lparr>status = 404, json = Error_text ''Producto no encontrado''\<rparr>,
            \<lparr>rows = [mouse], next_id = 2, calls = [FindByPk ''10'']\<rparr>)
   \<and> updateProduct \<lparr>params = [(''id'', ''10'')], body = []\<rparr> seeded_store =
       Inr (\<lparr>status = 404, json = Error_text ''Producto no encontrado''\<rparr>,
            \<lparr>rows = [mouse], next_id = 2, calls = [FindByPk ''10'']\<rparr>)"
proof -
  let ?req = "\<lparr>params = [(''id'', ''10'')], body = []\<rparr>"
  have h1: "map_of (params ?req) ''id'' = Some ''10''" by simp
  have h2: "to_int ''10'' = Some 10" by code_simp
  have h3: "find_row 10 (rows seeded_store) = None"
    by (simp add: find_row_def seeded_store_def mouse_def)
  have s: "seeded_store\<lparr>calls := calls seeded_store @ [FindByPk ''10'']\<rparr>
           = \<lparr>rows = [mouse], next_id = 2, calls = [FindByPk ''10'']\<rparr>"
    by (simp add: seeded_store_def)
  show ?thesis
    using missing_product_no_write [OF h1 h2 h3] h1 h2 h3 unfolding Let_def s by simp
qed




end
